theory Spec2Isabelle
  imports Main "HOL-Library.Multiset" "HOL-Library.Word"
begin

section \<open>The message service of \<^verbatim>\<open>rest_list.py\<close>\<close>

text \<open>
  The service keeps one SQLite table,
  \<^verbatim>\<open>messages(id INTEGER PRIMARY KEY AUTOINCREMENT, text TEXT NOT NULL)\<close>,
  and serves six routes over it. Each request opens its own connection
  (\<^verbatim>\<open>get_conn\<close>), runs one or two statements, commits or rolls back, and closes the
  connection.

  The handlers are embedded statement by statement. The store is the external
  collaborator of the handlers; it is modelled by the behaviour of exactly the six SQL
  statements the source executes, with the transaction discipline of Python's
  \<^verbatim>\<open>sqlite3\<close> module: a data-changing statement works on the connection's pending
  state, \<^verbatim>\<open>commit\<close> publishes it, \<^verbatim>\<open>rollback\<close> and \<^verbatim>\<open>close\<close> drop it.

  An id is a Python integer (\<open>int\<close>, unbounded) in a request and in an answer, and a
  signed 64-bit integer (\<open>64 word\<close>, read by \<open>sint\<close>) in the table; the source passes it
  to the store unchecked. A text is a string, held in the UTF-8 encoding in which SQLite
  stores and measures it. The statements fail where SQLite or the \<^verbatim>\<open>sqlite3\<close>
  module fail on the value they are given: an id out of range, a text or a row over the
  length limit, \<^verbatim>\<open>AUTOINCREMENT\<close> out of ids, a primary key used twice. No handler catches these failures, so the request is answered
  500 and nothing is committed. What depends on the machine and not on the request or
  the table (disk space, I/O, locks held by other connections) is not modelled: one
  request runs at a time.
\<close>

subsection \<open>Errors\<close>

text \<open>
  The exceptions a handler can leave with: its own \<^verbatim>\<open>HTTPException\<close>, those of the
  \<^verbatim>\<open>sqlite3\<close> module, \<^verbatim>\<open>TypeError\<close> from subscripting \<^verbatim>\<open>None\<close>, and the validation
  error for a request without the required parameter.
\<close>

datatype error =
    HTTPException nat string
  | OverflowError
  | DataError
  | OperationalError
  | IntegrityError
  | TypeError
  | RequestValidationError

subsection \<open>The table and a connection to it\<close>

text \<open>
  A row of the table: the columns \<^verbatim>\<open>id\<close>, an SQLite \<^verbatim>\<open>INTEGER\<close>, and
  \<^verbatim>\<open>text\<close>.
\<close>

type_synonym row = "64 word \<times> string"

text \<open>
  The database file: the rows of \<^verbatim>\<open>messages\<close>, and the entry that
  \<^verbatim>\<open>AUTOINCREMENT\<close> keeps for the table in \<^verbatim>\<open>sqlite_sequence\<close> (the largest id
  ever inserted; 0 when none was).
\<close>

record db =
  rows :: "row list"
  sqlite_sequence :: "64 word"

text \<open>
  A \<^verbatim>\<open>sqlite3.Connection\<close>: what the file holds, and what this connection sees
  (the file's content plus its own uncommitted changes).
\<close>

record connection =
  committed :: db
  pending :: db

definition connect :: "db \<Rightarrow> connection" where
  "connect d = \<lparr>committed = d, pending = d\<rparr>"

definition commit :: "connection \<Rightarrow> connection" where
  "commit conn = conn\<lparr>committed := pending conn\<rparr>"

definition rollback :: "connection \<Rightarrow> connection" where
  "rollback conn = conn\<lparr>pending := committed conn\<rparr>"

text \<open>Closing a connection drops what was not committed; the file keeps the rest.\<close>

definition close :: "connection \<Rightarrow> db" where
  "close conn = committed conn"

text \<open>
  \<^verbatim>\<open>init_db\<close>: \<^verbatim>\<open>CREATE TABLE IF NOT EXISTS\<close>, then commit. \<open>None\<close> is a file
  without the table.
\<close>

definition init_db :: "db option \<Rightarrow> db" where
  "init_db file =
     (case file of
        None \<Rightarrow> \<lparr>rows = [], sqlite_sequence = 0\<rparr>
      | Some d \<Rightarrow> d)"

text \<open>The id of a row as Python reads it, and the ids of the table in the order of its rows.\<close>

definition row_id :: "row \<Rightarrow> int" where
  "row_id r = sint (fst r)"

definition ids :: "db \<Rightarrow> int list" where
  "ids d = map row_id (rows d)"

subsection \<open>The values a statement is given\<close>

text \<open>
  The Python integers that are SQLite \<^verbatim>\<open>INTEGER\<close>s; the largest is the largest id a
  row can have.
\<close>

definition MAX_ROWID :: int where
  "MAX_ROWID = 9223372036854775807"

definition sqlite_integer :: "int \<Rightarrow> bool" where
  "sqlite_integer i \<longleftrightarrow> - MAX_ROWID - 1 \<le> i \<and> i \<le> MAX_ROWID"

text \<open>
  Binding a Python integer to a \<^verbatim>\<open>?\<close>: outside the 64-bit range the module raises
  \<^verbatim>\<open>OverflowError\<close> (\<^verbatim>\<open>Python int too large to convert to SQLite INTEGER\<close>).
\<close>

definition bind_int :: "int \<Rightarrow> error + 64 word" where
  "bind_int i = (if sqlite_integer i then Inr (word_of_int i) else Inl OverflowError)"

text \<open>
  The length limit of SQLite (\<^verbatim>\<open>SQLITE_MAX_LENGTH\<close>, one thousand million bytes unless
  the library was built otherwise) bounds a string and also a row as it is stored.
  Binding a longer string fails: in the module beyond C's \<^verbatim>\<open>INT_MAX\<close> bytes
  (\<^verbatim>\<open>OverflowError\<close>), in SQLite beyond its limit (\<^verbatim>\<open>DataError\<close>,
  \<^verbatim>\<open>string or blob too big\<close>).
\<close>

definition INT_MAX :: nat where
  "INT_MAX = 2147483647"

definition SQLITE_MAX_LENGTH :: nat where
  "SQLITE_MAX_LENGTH = 1000000000"

definition bind_text :: "string \<Rightarrow> error + string" where
  "bind_text text =
     (if INT_MAX < length text then Inl OverflowError
      else if SQLITE_MAX_LENGTH < length text then Inl DataError
      else Inr text)"

text \<open>
  A row is stored as one record: a header with its own length (one byte here), the
  type of each column as a variable-length integer, then the values. The id is the key
  of the row and is not repeated in the record (its type there is \<^verbatim>\<open>NULL\<close>, one byte);
  a text of \<open>n\<close> bytes has the type \<open>2n + 13\<close>. A record over the length limit is refused
  (\<^verbatim>\<open>DataError\<close>, \<^verbatim>\<open>string or blob too big\<close>).
\<close>

definition varint_len :: "nat \<Rightarrow> nat" where
  "varint_len v =
     (if v < 2 ^ 7 then 1 else if v < 2 ^ 14 then 2 else if v < 2 ^ 21 then 3
      else if v < 2 ^ 28 then 4 else if v < 2 ^ 35 then 5 else if v < 2 ^ 42 then 6
      else if v < 2 ^ 49 then 7 else if v < 2 ^ 56 then 8 else 9)"

definition record_size :: "string \<Rightarrow> nat" where
  "record_size text = 1 + 1 + varint_len (2 * length text + 13) + length text"

definition row_too_big :: "string \<Rightarrow> bool" where
  "row_too_big text \<longleftrightarrow> SQLITE_MAX_LENGTH < record_size text"

subsection \<open>The SQL statements of the source\<close>

text \<open>\<^verbatim>\<open>SELECT * FROM messages;\<close>\<close>

definition select_all :: "connection \<Rightarrow> row list" where
  "select_all conn = rows (pending conn)"

text \<open>\<^verbatim>\<open>SELECT * FROM messages WHERE id = ?;\<close>\<close>

definition select_by_id :: "int \<Rightarrow> connection \<Rightarrow> error + row list" where
  "select_by_id id' conn =
     (case bind_int id' of
        Inl e \<Rightarrow> Inl e
      | Inr w \<Rightarrow> Inr (filter (\<lambda>r. fst r = w) (rows (pending conn))))"

text \<open>\<^verbatim>\<open>cur.fetchall()\<close> and \<^verbatim>\<open>cur.fetchone()\<close> (\<open>None\<close> when there is no row).\<close>

definition fetchall :: "row list \<Rightarrow> row list" where
  "fetchall cur = cur"

definition fetchone :: "row list \<Rightarrow> row option" where
  "fetchone cur = (case cur of [] \<Rightarrow> None | r # _ \<Rightarrow> Some r)"

text \<open>
  \<^verbatim>\<open>UPDATE messages SET text = ? WHERE id = ?;\<close> The result is \<^verbatim>\<open>cur.rowcount\<close>,
  the number of rows matched, and the connection with the change pending. The
  parameters are bound in their order; a matched row is written again, as a new
  record.
\<close>

definition set_text :: "string \<Rightarrow> 64 word \<Rightarrow> row \<Rightarrow> row" where
  "set_text text w r = (if fst r = w then (fst r, text) else r)"

definition update_text :: "string \<Rightarrow> int \<Rightarrow> connection \<Rightarrow> error + int \<times> connection" where
  "update_text text id' conn =
     (case bind_text text of
        Inl e \<Rightarrow> Inl e
      | Inr t \<Rightarrow>
          (case bind_int id' of
             Inl e \<Rightarrow> Inl e
           | Inr w \<Rightarrow>
               (let d = pending conn;
                    matched = filter (\<lambda>r. fst r = w) (rows d)
                in if matched \<noteq> [] \<and> row_too_big t then Inl DataError
                   else Inr (int (length matched),
                             conn\<lparr>pending := d\<lparr>rows := map (set_text t w) (rows d)\<rparr>\<rparr>))))"

text \<open>
  The id \<^verbatim>\<open>AUTOINCREMENT\<close> assigns: one more than the largest id of the table (1 for
  an empty table), and more than the largest id the table ever held. When either is
  the largest id there is, the insert fails (\<^verbatim>\<open>OperationalError\<close>,
  \<^verbatim>\<open>database or disk is full\<close>).
\<close>

definition largest_id :: "db \<Rightarrow> int option" where
  "largest_id d = (case ids d of [] \<Rightarrow> None | i # js \<Rightarrow> Some (fold max js i))"

definition autoincrement_full :: "db \<Rightarrow> bool" where
  "autoincrement_full d \<longleftrightarrow>
     sint (sqlite_sequence d) = MAX_ROWID \<or>
     (case largest_id d of None \<Rightarrow> False | Some m \<Rightarrow> MAX_ROWID \<le> m)"

definition next_id :: "db \<Rightarrow> int" where
  "next_id d =
     max (case largest_id d of None \<Rightarrow> 1 | Some m \<Rightarrow> m + 1) (sint (sqlite_sequence d) + 1)"

text \<open>
  A new row goes where its id puts it: the table is a tree keyed by the id, and a scan
  reads it in that order.
\<close>

definition store_row :: "row \<Rightarrow> db \<Rightarrow> db" where
  "store_row r d =
     d\<lparr>rows := insort_key row_id r (rows d),
       sqlite_sequence :=
         (if sint (sqlite_sequence d) < row_id r then fst r else sqlite_sequence d)\<rparr>"

text \<open>
  \<^verbatim>\<open>INSERT INTO messages (text) VALUES (?);\<close> The result is \<^verbatim>\<open>cur.lastrowid\<close> and
  the connection with the new row pending.
\<close>

definition insert_text :: "string \<Rightarrow> connection \<Rightarrow> error + int \<times> connection" where
  "insert_text text conn =
     (case bind_text text of
        Inl e \<Rightarrow> Inl e
      | Inr t \<Rightarrow>
          (let d = pending conn
           in if autoincrement_full d then Inl OperationalError
              else if row_too_big t then Inl DataError
              else (let r = (word_of_int (next_id d), t)
                    in Inr (row_id r, conn\<lparr>pending := store_row r d\<rparr>))))"

text \<open>
  \<^verbatim>\<open>INSERT INTO messages (id, text) VALUES (?, ?);\<close> The primary key refuses an id
  the table already holds (\<^verbatim>\<open>IntegrityError\<close>).
\<close>

definition insert_id_text :: "int \<Rightarrow> string \<Rightarrow> connection \<Rightarrow> error + connection" where
  "insert_id_text id' text conn =
     (case bind_int id' of
        Inl e \<Rightarrow> Inl e
      | Inr w \<Rightarrow>
          (case bind_text text of
             Inl e \<Rightarrow> Inl e
           | Inr t \<Rightarrow>
               (let d = pending conn
                in if w \<in> fst ` set (rows d) then Inl IntegrityError
                   else if row_too_big t then Inl DataError
                   else Inr (conn\<lparr>pending := store_row (w, t) d\<rparr>))))"

text \<open>\<^verbatim>\<open>DELETE FROM messages WHERE id = ?;\<close> with \<^verbatim>\<open>cur.rowcount\<close>.\<close>

definition delete_by_id :: "int \<Rightarrow> connection \<Rightarrow> error + int \<times> connection" where
  "delete_by_id id' conn =
     (case bind_int id' of
        Inl e \<Rightarrow> Inl e
      | Inr w \<Rightarrow>
          (let d = pending conn
           in Inr (int (length (filter (\<lambda>r. fst r = w) (rows d))),
                   conn\<lparr>pending := d\<lparr>rows := filter (\<lambda>r. fst r \<noteq> w) (rows d)\<rparr>\<rparr>)))"

subsection \<open>The handlers\<close>

text \<open>
  A handler takes its parameters and the connection, and returns its result or the
  exception it was left with, and the connection as it then is.
\<close>

text \<open>The dictionary \<^verbatim>\<open>{"id": ..., "text": ...}\<close> a handler returns.\<close>

record message =
  msg_id :: int
  msg_text :: string

definition row_to_dict :: "row \<Rightarrow> message" where
  "row_to_dict r = \<lparr>msg_id = row_id r, msg_text = snd r\<rparr>"

text \<open>
  The two lines that end \<^verbatim>\<open>create_message\<close>, \<^verbatim>\<open>put_message\<close> and
  \<^verbatim>\<open>patch_message\<close>: select the row by its id and return
  \<^verbatim>\<open>row_to_dict(cur.fetchone())\<close>. Subscripting \<^verbatim>\<open>None\<close> raises \<^verbatim>\<open>TypeError\<close>.
\<close>

definition select_row_to_dict :: "int \<Rightarrow> connection \<Rightarrow> error + message" where
  "select_row_to_dict id' conn =
     (case select_by_id id' conn of
        Inl e \<Rightarrow> Inl e
      | Inr cur \<Rightarrow>
          (case fetchone cur of
             None \<Rightarrow> Inl TypeError
           | Some r \<Rightarrow> Inr (row_to_dict r)))"

abbreviation HTTP_200_OK :: nat where "HTTP_200_OK \<equiv> 200"
abbreviation HTTP_201_CREATED :: nat where "HTTP_201_CREATED \<equiv> 201"
abbreviation HTTP_204_NO_CONTENT :: nat where "HTTP_204_NO_CONTENT \<equiv> 204"

definition not_found :: error where
  "not_found = HTTPException 404 ''Message not found''"

definition get_messages :: "connection \<Rightarrow> (error + message list) \<times> connection" where
  "get_messages conn =
     (let rows = fetchall (select_all conn)
      in (Inr (map row_to_dict rows), conn))"

definition get_message :: "int \<Rightarrow> connection \<Rightarrow> (error + message) \<times> connection" where
  "get_message id' conn =
     (case select_by_id id' conn of
        Inl e \<Rightarrow> (Inl e, conn)
      | Inr cur \<Rightarrow>
          (case fetchone cur of
             None \<Rightarrow> (Inl not_found, conn)
           | Some r \<Rightarrow> (Inr (row_to_dict r), conn)))"

definition create_message :: "string \<Rightarrow> connection \<Rightarrow> (error + message) \<times> connection" where
  "create_message text conn =
     (case insert_text text conn of
        Inl e \<Rightarrow> (Inl e, conn)
      | Inr (new_id, conn1) \<Rightarrow>
          (let conn2 = commit conn1
           in (select_row_to_dict new_id conn2, conn2)))"

text \<open>
  The \<^verbatim>\<open>Response\<close> object that \<^verbatim>\<open>put_message\<close> may be given: only its status
  code matters, unset until a handler sets it.
\<close>

record response =
  status_code :: "nat option"

definition put_message ::
  "int \<Rightarrow> string \<Rightarrow> response option \<Rightarrow> connection
     \<Rightarrow> ((error + message) \<times> response option) \<times> connection" where
  "put_message id' text resp conn =
     (case update_text text id' conn of
        Inl e \<Rightarrow> ((Inl e, resp), conn)
      | Inr (rowcount, conn1) \<Rightarrow>
          if rowcount = 0 then
            (case insert_id_text id' text conn1 of
               Inl e \<Rightarrow> ((Inl e, resp), conn1)
             | Inr conn2 \<Rightarrow>
                 (let conn3 = commit conn2;
                      resp' = (case resp of
                                 None \<Rightarrow> None
                               | Some r \<Rightarrow> Some (r\<lparr>status_code := Some HTTP_201_CREATED\<rparr>))
                  in ((select_row_to_dict id' conn3, resp'), conn3)))
          else
            (let conn2 = commit conn1
             in ((select_row_to_dict id' conn2, resp), conn2)))"

definition patch_message ::
  "int \<Rightarrow> string \<Rightarrow> connection \<Rightarrow> (error + message) \<times> connection" where
  "patch_message id' text conn =
     (case update_text text id' conn of
        Inl e \<Rightarrow> (Inl e, conn)
      | Inr (rowcount, conn1) \<Rightarrow>
          if rowcount = 0 then (Inl not_found, rollback conn1)
          else
            (let conn2 = commit conn1
             in (select_row_to_dict id' conn2, conn2)))"

definition delete_message :: "int \<Rightarrow> connection \<Rightarrow> (error + unit) \<times> connection" where
  "delete_message id' conn =
     (case delete_by_id id' conn of
        Inl e \<Rightarrow> (Inl e, conn)
      | Inr (rowcount, conn1) \<Rightarrow>
          if rowcount = 0 then (Inl not_found, rollback conn1)
          else (Inr (), commit conn1))"

subsection \<open>The routes\<close>

text \<open>
  What the decorators and parameter declarations of the source fix: the path and
  method of each handler, the status code of a successful answer (201 for
  \<^verbatim>\<open>POST\<close>, 204 for \<^verbatim>\<open>DELETE\<close>, 200 otherwise), the required query parameter
  \<^verbatim>\<open>text\<close> (\<^verbatim>\<open>Query(...)\<close>; a request without it is answered 422 and the handler is
  not called), the connection of \<^verbatim>\<open>Depends(get_conn)\<close>, closed when the handler is
  left, and the \<^verbatim>\<open>Response\<close> object passed to \<^verbatim>\<open>put_message\<close>.
\<close>

datatype request =
    GET_messages
  | GET_message int
  | POST_messages "string option"
  | PUT_message int "string option"
  | PATCH_message int "string option"
  | DELETE_message int

datatype payload =
    Empty
  | Json_message message
  | Json_messages "message list"
  | Json_detail string
  | Json_validation_errors
  | Plain string

record http_response =
  status :: nat
  body :: payload

text \<open>
  An \<^verbatim>\<open>HTTPException\<close> becomes its status code and detail, a missing parameter 422,
  any other exception 500.
\<close>

fun error_response :: "error \<Rightarrow> http_response" where
  "error_response (HTTPException code detail) = \<lparr>status = code, body = Json_detail detail\<rparr>"
| "error_response RequestValidationError = \<lparr>status = 422, body = Json_validation_errors\<rparr>"
| "error_response e = \<lparr>status = 500, body = Plain ''Internal Server Error''\<rparr>"

definition respond :: "nat \<Rightarrow> ('a \<Rightarrow> payload) \<Rightarrow> error + 'a \<Rightarrow> http_response" where
  "respond code render result =
     (case result of
        Inl e \<Rightarrow> error_response e
      | Inr v \<Rightarrow> \<lparr>status = code, body = render v\<rparr>)"

text \<open>\<^verbatim>\<open>get_conn\<close>: open a connection, run the handler, close the connection.\<close>

definition get_conn :: "(connection \<Rightarrow> 'a \<times> connection) \<Rightarrow> db \<Rightarrow> 'a \<times> db" where
  "get_conn handler d = (let (result, conn) = handler (connect d) in (result, close conn))"

definition serve :: "request \<Rightarrow> db \<Rightarrow> http_response \<times> db" where
  "serve req d =
     (case req of
        GET_messages \<Rightarrow>
          (let (result, d') = get_conn get_messages d
           in (respond HTTP_200_OK Json_messages result, d'))
      | GET_message id' \<Rightarrow>
          (let (result, d') = get_conn (get_message id') d
           in (respond HTTP_200_OK Json_message result, d'))
      | POST_messages None \<Rightarrow> (error_response RequestValidationError, d)
      | POST_messages (Some text) \<Rightarrow>
          (let (result, d') = get_conn (create_message text) d
           in (respond HTTP_201_CREATED Json_message result, d'))
      | PUT_message id' None \<Rightarrow> (error_response RequestValidationError, d)
      | PUT_message id' (Some text) \<Rightarrow>
          (let ((result, resp), d') =
                 get_conn (put_message id' text (Some \<lparr>status_code = None\<rparr>)) d;
               code = (case resp of
                         None \<Rightarrow> HTTP_200_OK
                       | Some r \<Rightarrow>
                           (case status_code r of None \<Rightarrow> HTTP_200_OK | Some c \<Rightarrow> c))
           in (respond code Json_message result, d'))
      | PATCH_message id' None \<Rightarrow> (error_response RequestValidationError, d)
      | PATCH_message id' (Some text) \<Rightarrow>
          (let (result, d') = get_conn (patch_message id' text) d
           in (respond HTTP_200_OK Json_message result, d'))
      | DELETE_message id' \<Rightarrow>
          (let (result, d') = get_conn (delete_message id') d
           in (respond HTTP_204_NO_CONTENT (\<lambda>_. Empty) result, d')))"

section \<open>Properties of the store\<close>

subsection \<open>Ids and texts within the limits of SQLite\<close>

lemma sqlite_integer_sint: "sqlite_integer (sint (w :: 64 word))"
  using sint_ge[of w] sint_lt[of w] by (simp add: sqlite_integer_def MAX_ROWID_def)

lemma sint_word_of_int: "sqlite_integer i \<Longrightarrow> sint (word_of_int i :: 64 word) = i"
  by (simp add: sqlite_integer_def MAX_ROWID_def sint_sbintrunc' signed_take_bit_int_eq_self)

lemma word_eq_iff: "sqlite_integer i \<Longrightarrow> (w = (word_of_int i :: 64 word)) = (sint w = i)"
  using sint_word_of_int[of i] by auto

lemma row_id_word_of_int: "sqlite_integer i \<Longrightarrow> row_id (word_of_int i, t) = i"
  by (simp add: row_id_def sint_word_of_int)

lemma ids_in_range: "i \<in> set (ids d) \<Longrightarrow> sqlite_integer i"
  by (auto simp: ids_def row_id_def sqlite_integer_sint)

lemma in_ids_iff:
  "sqlite_integer i \<Longrightarrow> i \<in> set (ids d) \<longleftrightarrow> word_of_int i \<in> fst ` set (rows d)"
  by (force simp: ids_def row_id_def word_eq_iff sint_word_of_int)

lemma length_le_record_size: "length t \<le> record_size t"
  by (simp add: record_size_def)

lemma row_too_big_iff: "row_too_big t \<longleftrightarrow> 999999993 < length t"
  by (auto simp: row_too_big_def record_size_def SQLITE_MAX_LENGTH_def varint_len_def)

lemma bind_text_fits: "length t \<le> SQLITE_MAX_LENGTH \<Longrightarrow> bind_text t = Inr t"
  by (simp add: bind_text_def SQLITE_MAX_LENGTH_def INT_MAX_def)

lemma bind_text_row: "\<not> row_too_big t \<Longrightarrow> bind_text t = Inr t"
  by (rule bind_text_fits) (simp add: row_too_big_iff SQLITE_MAX_LENGTH_def)

lemma bind_int_ok: "sqlite_integer i \<Longrightarrow> bind_int i = Inr (word_of_int i)"
  by (simp add: bind_int_def)

lemma fold_max_ge: "(s::int) \<le> fold max xs s"
proof -
  have "s \<le> Max (set (s # xs))" by (intro Max_ge) auto
  then show ?thesis by (simp only: Max.set_eq_fold)
qed

lemma fold_max_ge_elem: "x \<in> set xs \<Longrightarrow> (x::int) \<le> fold max xs s"
proof -
  assume "x \<in> set xs"
  then have "x \<le> Max (set (s # xs))" by (intro Max_ge) auto
  then show ?thesis by (simp only: Max.set_eq_fold)
qed

lemma fold_max_in: "fold max xs (s::int) \<in> set (s # xs)"
proof -
  have "Max (set (s # xs)) \<in> set (s # xs)" by (intro Max_in) auto
  then show ?thesis by (simp only: Max.set_eq_fold)
qed

lemma largest_id_None: "largest_id d = None \<longleftrightarrow> ids d = []"
  by (simp add: largest_id_def split: list.split)

lemma largest_id_Some:
  "largest_id d = Some m \<Longrightarrow> m \<in> set (ids d) \<and> (\<forall>i \<in> set (ids d). i \<le> m)"
  using fold_max_in fold_max_ge fold_max_ge_elem
  by (fastforce simp: largest_id_def split: list.splits)

lemma next_id_fresh: "next_id d \<notin> set (ids d)"
proof (cases "largest_id d")
  case None
  then show ?thesis by (simp add: largest_id_None)
next
  case (Some m)
  then have "\<forall>i \<in> set (ids d). i < next_id d"
    using largest_id_Some[OF Some] by (auto simp: next_id_def)
  then show ?thesis by blast
qed

lemma next_id_in_range: "\<not> autoincrement_full d \<Longrightarrow> sqlite_integer (next_id d)"
proof (cases "largest_id d")
  case None
  assume "\<not> autoincrement_full d"
  with None show ?thesis
    using sqlite_integer_sint[of "sqlite_sequence d"]
    by (auto simp: next_id_def autoincrement_full_def sqlite_integer_def MAX_ROWID_def)
next
  case (Some m)
  assume "\<not> autoincrement_full d"
  moreover have "sqlite_integer m" using largest_id_Some[OF Some] ids_in_range by blast
  ultimately show ?thesis
    using Some sqlite_integer_sint[of "sqlite_sequence d"]
    by (auto simp: next_id_def autoincrement_full_def sqlite_integer_def MAX_ROWID_def)
qed

subsection \<open>Rows and ids\<close>

lemma sint_eq_iff: "(sint (a :: 64 word) = sint b) = (a = b)"
  by (auto intro: signed_word_eqI)

lemma rowcount_zero_iff:
  "filter (\<lambda>r. fst r = w) xs = [] \<longleftrightarrow> w \<notin> fst ` set xs"
  by (induction xs) auto

lemma set_text_absent: "w \<notin> fst ` set xs \<Longrightarrow> map (set_text t w) xs = xs"
  by (induction xs) (auto simp: set_text_def)

lemma fst_set_text: "fst (set_text t w r) = fst r"
  by (simp add: set_text_def)

lemma row_id_set_text: "row_id (set_text t w r) = row_id r"
  by (simp add: set_text_def row_id_def)

lemma set_text_twice: "set_text t w (set_text t w r) = set_text t w r"
  by (simp add: set_text_def)

lemma fetchone_map_of:
  "fetchone (filter (\<lambda>r. fst r = w) xs) = map_option (Pair w) (map_of xs w)"
  by (induction xs) (auto simp: fetchone_def)

lemma map_of_updated: "w \<in> fst ` set xs \<Longrightarrow> map_of (map (set_text t w) xs) w = Some t"
  by (induction xs) (auto simp: set_text_def)

lemma map_of_stored:
  "w \<notin> fst ` set xs \<Longrightarrow> map_of (insort_key row_id (w, t) xs) w = Some t"
  by (induction xs) auto

lemma map_of_deleted: "map_of (filter (\<lambda>r. fst r \<noteq> w) xs) w = None"
  by (auto simp: map_of_eq_None_iff)

lemma set_text_stored:
  "w \<notin> fst ` set xs \<Longrightarrow>
     map (set_text t w) (insort_key row_id (w, t) xs) = insort_key row_id (w, t) xs"
  by (induction xs) (auto simp: set_text_def set_text_absent)

lemma map_row_id_insort:
  "map row_id (insort_key row_id r xs) = insort (row_id r) (map row_id xs)"
  by (induction xs) auto

lemma ids_store_row: "ids (store_row r d) = insort (row_id r) (ids d)"
  by (simp add: ids_def store_row_def map_row_id_insort)

lemma ids_set_text: "ids (d\<lparr>rows := map (set_text t w) (rows d)\<rparr>) = ids d"
  by (simp add: ids_def row_id_set_text)

lemma ids_delete:
  "ids (d\<lparr>rows := filter (\<lambda>r. fst r \<noteq> w) (rows d)\<rparr>) = removeAll (sint w) (ids d)"
proof -
  have "map row_id (filter (\<lambda>r. fst r \<noteq> w) xs) = removeAll (sint w) (map row_id xs)" for xs
    by (induction xs) (auto simp: row_id_def sint_eq_iff)
  then show ?thesis by (simp add: ids_def)
qed

lemma length_delete:
  "distinct (map row_id xs) \<Longrightarrow> w \<in> fst ` set xs \<Longrightarrow>
     Suc (length (filter (\<lambda>r. fst r \<noteq> w) xs)) = length xs"
proof (induction xs)
  case Nil
  then show ?case by simp
next
  case (Cons x xs)
  show ?case
  proof (cases "fst x = w")
    case True
    have "w \<notin> fst ` set xs"
    proof
      assume "w \<in> fst ` set xs"
      then obtain r where r: "r \<in> set xs" "fst r = w" by auto
      with True have "row_id x = row_id r" by (simp add: row_id_def)
      with r have "row_id x \<in> row_id ` set xs" by (simp add: image_iff) blast
      with Cons.prems(1) show False by simp
    qed
    then have "filter (\<lambda>r. fst r \<noteq> w) xs = xs" by (auto simp: filter_id_conv)
    with True show ?thesis by simp
  next
    case False
    with Cons show ?thesis by auto
  qed
qed

lemma in_rows_store_row: "r \<in> set (rows (store_row r d))"
  by (simp add: store_row_def set_insort_key)

lemma mset_rows_store_row: "mset (rows (store_row r d)) = add_mset r (mset (rows d))"
  by (simp add: store_row_def)

subsection \<open>What each route answers and leaves behind\<close>

lemma too_long_too_big: "SQLITE_MAX_LENGTH < length t \<Longrightarrow> row_too_big t"
  using length_le_record_size[of t] by (simp add: row_too_big_def)

lemma bind_text_cases:
  "bind_text t = (if SQLITE_MAX_LENGTH < length t
                  then Inl (if INT_MAX < length t then OverflowError else DataError)
                  else Inr t)"
  by (simp add: bind_text_def SQLITE_MAX_LENGTH_def INT_MAX_def)

lemmas store_defs =
  connect_def commit_def rollback_def close_def select_all_def select_by_id_def fetchall_def
  update_text_def insert_text_def insert_id_text_def delete_by_id_def

lemmas handler_defs =
  get_conn_def get_messages_def get_message_def create_message_def put_message_def
  patch_message_def delete_message_def select_row_to_dict_def row_to_dict_def
  respond_def not_found_def

lemma serve_GET_messages:
  "serve GET_messages d =
     (\<lparr>status = 200, body = Json_messages (map row_to_dict (rows d))\<rparr>, d)"
  by (simp add: serve_def handler_defs store_defs)

lemma serve_GET_message:
  "serve (GET_message i) d =
     (if sqlite_integer i then
        (case map_of (rows d) (word_of_int i) of
           None \<Rightarrow> \<lparr>status = 404, body = Json_detail ''Message not found''\<rparr>
         | Some t \<Rightarrow> \<lparr>status = 200, body = Json_message \<lparr>msg_id = i, msg_text = t\<rparr>\<rparr>)
      else \<lparr>status = 500, body = Plain ''Internal Server Error''\<rparr>, d)"
  by (simp add: serve_def handler_defs store_defs bind_int_def fetchone_map_of row_id_def
      sint_word_of_int split: option.split)

lemma serve_POST_messages:
  "serve (POST_messages (Some t)) d =
     (if autoincrement_full d \<or> row_too_big t
      then (\<lparr>status = 500, body = Plain ''Internal Server Error''\<rparr>, d)
      else (\<lparr>status = 201, body = Json_message \<lparr>msg_id = next_id d, msg_text = t\<rparr>\<rparr>,
            store_row (word_of_int (next_id d), t) d))"
proof (cases "autoincrement_full d \<or> row_too_big t")
  case True
  then show ?thesis
    using too_long_too_big[of t]
    by (auto simp: serve_def handler_defs store_defs bind_text_cases Let_def)
next
  case False
  then have range: "sqlite_integer (next_id d)" by (simp add: next_id_in_range)
  have "word_of_int (next_id d) \<notin> fst ` set (rows d)"
    using next_id_fresh[of d] in_ids_iff[OF range, of d] by simp
  with False range show ?thesis
    by (simp add: serve_def handler_defs store_defs bind_text_row bind_int_def Let_def
        row_id_def sint_word_of_int fetchone_map_of store_row_def map_of_stored)
qed

lemma serve_PUT_message:
  "serve (PUT_message i (Some t)) d =
     (if \<not> sqlite_integer i \<or> row_too_big t
      then (\<lparr>status = 500, body = Plain ''Internal Server Error''\<rparr>, d)
      else if i \<in> set (ids d)
      then (\<lparr>status = 200, body = Json_message \<lparr>msg_id = i, msg_text = t\<rparr>\<rparr>,
            d\<lparr>rows := map (set_text t (word_of_int i)) (rows d)\<rparr>)
      else (\<lparr>status = 201, body = Json_message \<lparr>msg_id = i, msg_text = t\<rparr>\<rparr>,
            store_row (word_of_int i, t) d))"
proof (cases "sqlite_integer i")
  case False
  then show ?thesis
    by (auto simp: serve_def handler_defs store_defs bind_text_cases bind_int_def Let_def)
next
  case range: True
  show ?thesis
  proof (cases "row_too_big t")
    case True
    with range show ?thesis
      by (auto simp: serve_def handler_defs store_defs bind_text_cases bind_int_def Let_def
          rowcount_zero_iff set_text_absent fst_set_text)
  next
    case False
    with range show ?thesis
      by (auto simp: serve_def handler_defs store_defs bind_text_row bind_int_def Let_def
          rowcount_zero_iff set_text_absent in_ids_iff fetchone_map_of map_of_updated
          map_of_stored store_row_def row_id_def sint_word_of_int)
  qed
qed

lemma serve_PATCH_message:
  "serve (PATCH_message i (Some t)) d =
     (if \<not> sqlite_integer i \<or> SQLITE_MAX_LENGTH < length t
      then (\<lparr>status = 500, body = Plain ''Internal Server Error''\<rparr>, d)
      else if i \<notin> set (ids d)
      then (\<lparr>status = 404, body = Json_detail ''Message not found''\<rparr>, d)
      else if row_too_big t
      then (\<lparr>status = 500, body = Plain ''Internal Server Error''\<rparr>, d)
      else (\<lparr>status = 200, body = Json_message \<lparr>msg_id = i, msg_text = t\<rparr>\<rparr>,
            d\<lparr>rows := map (set_text t (word_of_int i)) (rows d)\<rparr>))"
proof (cases "sqlite_integer i")
  case False
  then show ?thesis
    by (auto simp: serve_def handler_defs store_defs bind_text_cases bind_int_def Let_def)
next
  case True
  then show ?thesis
    by (auto simp: serve_def handler_defs store_defs bind_text_cases bind_int_def Let_def
        rowcount_zero_iff in_ids_iff fetchone_map_of map_of_updated row_id_def
        sint_word_of_int)
qed

lemma serve_DELETE_message:
  "serve (DELETE_message i) d =
     (if \<not> sqlite_integer i
      then (\<lparr>status = 500, body = Plain ''Internal Server Error''\<rparr>, d)
      else if i \<notin> set (ids d)
      then (\<lparr>status = 404, body = Json_detail ''Message not found''\<rparr>, d)
      else (\<lparr>status = 204, body = Empty\<rparr>,
            d\<lparr>rows := filter (\<lambda>r. fst r \<noteq> word_of_int i) (rows d)\<rparr>))"
  by (auto simp: serve_def handler_defs store_defs bind_int_def Let_def rowcount_zero_iff
      in_ids_iff)

lemma serve_without_text:
  "serve (POST_messages None) d = (\<lparr>status = 422, body = Json_validation_errors\<rparr>, d)"
  "serve (PUT_message i None) d = (\<lparr>status = 422, body = Json_validation_errors\<rparr>, d)"
  "serve (PATCH_message i None) d = (\<lparr>status = 422, body = Json_validation_errors\<rparr>, d)"
  by (simp_all add: serve_def)

lemma set_text_row_id:
  "sqlite_integer i \<Longrightarrow>
     set_text t (word_of_int i) = (\<lambda>r. if row_id r = i then (fst r, t) else r)"
  by (auto simp: set_text_def row_id_def fun_eq_iff word_eq_iff)

lemma filter_row_id:
  "sqlite_integer i \<Longrightarrow>
     filter (\<lambda>r. fst r \<noteq> word_of_int i) xs = filter (\<lambda>r. row_id r \<noteq> i) xs"
  by (rule filter_cong) (auto simp: row_id_def word_eq_iff)

lemma serve_ids:
  "ids (snd (serve req d)) = ids d \<or>
   (\<exists>j. j \<notin> set (ids d) \<and> (\<forall>i. req \<noteq> DELETE_message i) \<and>
        ids (snd (serve req d)) = insort j (ids d)) \<or>
   (\<exists>i. req = DELETE_message i \<and> ids (snd (serve req d)) = removeAll i (ids d))"
proof (cases req)
  case GET_messages
  then show ?thesis by (simp add: serve_GET_messages)
next
  case (GET_message i)
  then show ?thesis by (simp add: serve_GET_message)
next
  case (POST_messages param)
  then show ?thesis
    using next_id_fresh[of d] next_id_in_range[of d]
    by (cases param)
       (auto simp: serve_without_text serve_POST_messages ids_store_row row_id_word_of_int)
next
  case (PUT_message i param)
  then show ?thesis
    by (cases param)
       (auto simp: serve_without_text serve_PUT_message ids_store_row ids_set_text
          row_id_word_of_int)
next
  case (PATCH_message i param)
  then show ?thesis
    by (cases param) (auto simp: serve_without_text serve_PATCH_message ids_set_text)
next
  case (DELETE_message i)
  then show ?thesis
    by (auto simp: serve_DELETE_message ids_delete sint_word_of_int)
qed

lemma serve_DELETE_ids: "ids (snd (serve (DELETE_message i) d)) = removeAll i (ids d)"
  using ids_in_range[of i d]
  by (auto simp: serve_DELETE_message ids_delete sint_word_of_int)

lemma serve_distinct_ids: "distinct (ids d) \<Longrightarrow> distinct (ids (snd (serve req d)))"
  using serve_ids[of req d] by (auto simp: distinct_insort distinct_removeAll)

lemma map_of_word_of_int:
  "sqlite_integer i \<Longrightarrow> (map_of (rows d) (word_of_int i) = None) = (i \<notin> set (ids d))"
  by (simp add: map_of_eq_None_iff in_ids_iff)

lemma in_ids_store_word: "sqlite_integer i \<Longrightarrow> i \<in> set (ids (store_row (word_of_int i, t) d))"
  by (simp add: ids_store_row set_insort_key row_id_word_of_int)

lemma in_ids_next: "\<not> autoincrement_full d \<Longrightarrow>
    map_of (rows (store_row (word_of_int (next_id d), t) d)) (word_of_int (next_id d)) = Some t"
  using next_id_fresh[of d] next_id_in_range[of d]
  by (simp add: store_row_def map_of_stored in_ids_iff)

lemma in_rows_updated:
  "sqlite_integer i \<Longrightarrow> i \<in> set (ids d) \<Longrightarrow>
     (word_of_int i, t) \<in> set (map (set_text t (word_of_int i)) (rows d))"
  using map_of_updated[of "word_of_int i" "rows d" t]
  by (auto simp: in_ids_iff dest: map_of_SomeD)

lemma select_row_to_dict_connect:
  "sqlite_integer i \<Longrightarrow> map_of (rows d) (word_of_int i) = Some t \<Longrightarrow>
     select_row_to_dict i (connect d) = Inr \<lparr>msg_id = i, msg_text = t\<rparr>"
  by (simp add: select_row_to_dict_def select_by_id_def bind_int_ok connect_def fetchone_map_of
      row_to_dict_def row_id_def sint_word_of_int)

subsection \<open>Every state the service reaches\<close>

text \<open>
  The table that \<^verbatim>\<open>init_db\<close> creates is empty, so every table reached from it by
  requests has pairwise distinct ids.
\<close>

lemma reachable_distinct_ids:
  "distinct (ids (fold (\<lambda>req d. snd (serve req d)) reqs (init_db None)))"
proof -
  have "distinct (ids d) \<Longrightarrow> distinct (ids (fold (\<lambda>req d. snd (serve req d)) reqs d))" for d
    by (induction reqs arbitrary: d) (simp_all add: serve_distinct_ids)
  then show ?thesis by (simp add: init_db_def ids_def)
qed

subsection \<open>The length limit at work\<close>

text \<open>
  A handler given a text of more than \<^verbatim>\<open>SQLITE_MAX_LENGTH\<close> bytes is left with the
  exception of the first statement that binds it. A text within that limit can still be
  too long for a row: the largest that fits has 999,999,993 bytes.
\<close>

lemma text_over_the_limit:
  "bind_text (replicate 1000000001 CHR ''a'') = Inl DataError"
  "fst (create_message (replicate 1000000001 CHR ''a'') (connect (init_db None))) = Inl DataError"
  "fst (fst (put_message 5 (replicate 1000000001 CHR ''a'') None (connect (init_db None)))) =
     Inl DataError"
  "fst (patch_message 5 (replicate 1000000001 CHR ''a'') (connect (init_db None))) =
     Inl DataError"
  by (simp_all add: bind_text_def create_message_def put_message_def patch_message_def
      insert_text_def update_text_def INT_MAX_def SQLITE_MAX_LENGTH_def)

lemma row_over_the_limit:
  "bind_text (replicate 999999994 CHR ''a'') = Inr (replicate 999999994 CHR ''a'')"
  "row_too_big (replicate 999999994 CHR ''a'')"
  "\<not> row_too_big (replicate 999999993 CHR ''a'')"
  by (simp_all add: bind_text_def row_too_big_iff INT_MAX_def SQLITE_MAX_LENGTH_def)

subsection \<open>Evaluating the service on concrete requests\<close>

lemmas eval_defs =
  serve_def get_conn_def get_messages_def get_message_def create_message_def put_message_def
  patch_message_def delete_message_def respond_def not_found_def
  select_row_to_dict_def row_to_dict_def row_id_def fetchone_def fetchall_def connect_def
  commit_def rollback_def close_def select_all_def select_by_id_def update_text_def
  insert_text_def insert_id_text_def delete_by_id_def store_row_def next_id_def largest_id_def
  autoincrement_full_def ids_def init_db_def set_text_def bind_int_def bind_text_def
  sqlite_integer_def MAX_ROWID_def INT_MAX_def SQLITE_MAX_LENGTH_def row_too_big_def
  record_size_def varint_len_def Let_def

section \<open>The claims of the specification\<close>

text \<open>
  C1, as stated: for every id and every text, \<^verbatim>\<open>PUT /messages/{id}\<close> on a table
  with no row of that id inserts the row and answers 201. The source binds the id as it
  comes: for an id beyond the signed 64-bit range the first statement raises
  \<^verbatim>\<open>OverflowError\<close>, the answer is 500 and nothing is stored.
\<close>

theorem put_beyond_64_bits:
  "9223372036854775808 \<notin> set (ids (init_db None)) \<and>
   serve (PUT_message 9223372036854775808 (Some ''x'')) (init_db None) =
     (\<lparr>status = 500, body = Plain ''Internal Server Error''\<rparr>, init_db None)"
  by (simp add: eval_defs)

text \<open>
  C1, amended: for every id in the signed 64-bit range and every text that fits a row
  of the table, \<^verbatim>\<open>PUT /messages/{id}\<close> on a table with no row of that id inserts a
  row with exactly that id and that text and answers 201 with the final message; on a
  table that has a row of that id it sets the text of that row and answers 200 with the
  final message; in both cases a following \<^verbatim>\<open>GET /messages/{id}\<close> returns the new
  text.
\<close>

theorem put_message_upsert:
  assumes "sqlite_integer i" and "\<not> row_too_big t"
  shows
  "(i \<notin> set (ids d) \<longrightarrow>
      fst (serve (PUT_message i (Some t)) d) =
        \<lparr>status = 201, body = Json_message \<lparr>msg_id = i, msg_text = t\<rparr>\<rparr> \<and>
      mset (rows (snd (serve (PUT_message i (Some t)) d))) =
        add_mset (word_of_int i, t) (mset (rows d))) \<and>
   (i \<in> set (ids d) \<longrightarrow>
      fst (serve (PUT_message i (Some t)) d) =
        \<lparr>status = 200, body = Json_message \<lparr>msg_id = i, msg_text = t\<rparr>\<rparr> \<and>
      rows (snd (serve (PUT_message i (Some t)) d)) =
        map (\<lambda>r. if row_id r = i then (fst r, t) else r) (rows d)) \<and>
   fst (serve (GET_message i) (snd (serve (PUT_message i (Some t)) d))) =
     \<lparr>status = 200, body = Json_message \<lparr>msg_id = i, msg_text = t\<rparr>\<rparr>"
proof (cases "i \<in> set (ids d)")
  case True
  then have "map_of (map (set_text t (word_of_int i)) (rows d)) (word_of_int i) = Some t"
    using assms(1) by (simp add: map_of_updated in_ids_iff)
  with True assms show ?thesis
    by (simp add: serve_PUT_message serve_GET_message set_text_row_id)
next
  case False
  then have "map_of (rows (store_row (word_of_int i, t) d)) (word_of_int i) = Some t"
    using assms(1) by (simp add: store_row_def map_of_stored in_ids_iff)
  with False assms show ?thesis
    by (simp add: serve_PUT_message serve_GET_message mset_rows_store_row)
qed

theorem put_message_upsert_witness:
  "sqlite_integer 5 \<and> \<not> row_too_big ''x'' \<and> \<not> row_too_big ''y'' \<and>
   5 \<notin> set (ids (init_db None)) \<and>
   serve (PUT_message 5 (Some ''x'')) (init_db None) =
     (\<lparr>status = 201, body = Json_message \<lparr>msg_id = 5, msg_text = ''x''\<rparr>\<rparr>,
      \<lparr>rows = [(5, ''x'')], sqlite_sequence = 5\<rparr>) \<and>
   5 \<in> set (ids \<lparr>rows = [(5, ''x'')], sqlite_sequence = 5\<rparr>) \<and>
   serve (PUT_message 5 (Some ''y'')) \<lparr>rows = [(5, ''x'')], sqlite_sequence = 5\<rparr> =
     (\<lparr>status = 200, body = Json_message \<lparr>msg_id = 5, msg_text = ''y''\<rparr>\<rparr>,
      \<lparr>rows = [(5, ''y'')], sqlite_sequence = 5\<rparr>) \<and>
   fst (serve (GET_message 5) \<lparr>rows = [(5, ''y'')], sqlite_sequence = 5\<rparr>) =
     \<lparr>status = 200, body = Json_message \<lparr>msg_id = 5, msg_text = ''y''\<rparr>\<rparr>"
  using put_message_upsert [of 5 "''x''" "init_db None"]
    put_message_upsert [of 5 "''y''" "\<lparr>rows = [(5, ''x'')], sqlite_sequence = 5\<rparr>"]
  by (simp add: eval_defs)

text \<open>
  C2, as stated: for every id the table does not hold and every text,
  \<^verbatim>\<open>PATCH /messages/{id}\<close> fails with status 404. For an id beyond the signed
  64-bit range the \<^verbatim>\<open>UPDATE\<close> raises \<^verbatim>\<open>OverflowError\<close> and the answer is 500.
\<close>

theorem patch_beyond_64_bits:
  "9223372036854775808 \<notin> set (ids \<lparr>rows = [(1, ''hello'')], sqlite_sequence = 1\<rparr>) \<and>
   serve (PATCH_message 9223372036854775808 (Some ''world''))
       \<lparr>rows = [(1, ''hello'')], sqlite_sequence = 1\<rparr> =
     (\<lparr>status = 500, body = Plain ''Internal Server Error''\<rparr>,
      \<lparr>rows = [(1, ''hello'')], sqlite_sequence = 1\<rparr>)"
  by (simp add: eval_defs)

text \<open>
  C2, amended: for every id in the signed 64-bit range that the table does not hold and
  every text within the length limit of SQLite, \<^verbatim>\<open>PATCH /messages/{id}\<close> fails with
  status 404 and the fixed detail \<^verbatim>\<open>Message not found\<close>, and the stored table after
  the request is the stored table before it. The handler rolls back: whatever its
  connection had pending, it leaves the connection with the committed state, and
  commits nothing.
\<close>

theorem patch_message_absent:
  assumes "sqlite_integer i" and "length t \<le> SQLITE_MAX_LENGTH"
  shows
  "(i \<notin> set (ids d) \<longrightarrow>
      serve (PATCH_message i (Some t)) d =
        (\<lparr>status = 404, body = Json_detail ''Message not found''\<rparr>, d)) \<and>
   (i \<notin> set (ids (pending conn)) \<longrightarrow>
      patch_message i t conn =
        (Inl (HTTPException 404 ''Message not found''),
         \<lparr>committed = committed conn, pending = committed conn\<rparr>))"
proof (intro conjI impI)
  assume "i \<notin> set (ids d)"
  with assms show "serve (PATCH_message i (Some t)) d =
      (\<lparr>status = 404, body = Json_detail ''Message not found''\<rparr>, d)"
    by (simp add: serve_PATCH_message)
next
  assume "i \<notin> set (ids (pending conn))"
  with assms show "patch_message i t conn =
      (Inl (HTTPException 404 ''Message not found''),
       \<lparr>committed = committed conn, pending = committed conn\<rparr>)"
    by (simp add: patch_message_def update_text_def bind_text_fits bind_int_ok in_ids_iff
        rowcount_zero_iff rollback_def not_found_def Let_def)
qed

theorem patch_message_absent_witness:
  "sqlite_integer 7 \<and> length ''world'' \<le> SQLITE_MAX_LENGTH \<and>
   7 \<notin> set (ids \<lparr>rows = [(1, ''hello'')], sqlite_sequence = 1\<rparr>) \<and>
   serve (PATCH_message 7 (Some ''world'')) \<lparr>rows = [(1, ''hello'')], sqlite_sequence = 1\<rparr> =
     (\<lparr>status = 404, body = Json_detail ''Message not found''\<rparr>,
      \<lparr>rows = [(1, ''hello'')], sqlite_sequence = 1\<rparr>) \<and>
   patch_message 7 ''world''
       \<lparr>committed = \<lparr>rows = [(1, ''hello'')], sqlite_sequence = 1\<rparr>,
        pending = \<lparr>rows = [(1, ''hello''), (2, ''x'')], sqlite_sequence = 2\<rparr>\<rparr> =
     (Inl (HTTPException 404 ''Message not found''),
      \<lparr>committed = \<lparr>rows = [(1, ''hello'')], sqlite_sequence = 1\<rparr>,
       pending = \<lparr>rows = [(1, ''hello'')], sqlite_sequence = 1\<rparr>\<rparr>)"
  using patch_message_absent [of 7 "''world''" "\<lparr>rows = [(1, ''hello'')], sqlite_sequence = 1\<rparr>"
      "\<lparr>committed = \<lparr>rows = [(1, ''hello'')], sqlite_sequence = 1\<rparr>,
        pending = \<lparr>rows = [(1, ''hello''), (2, ''x'')], sqlite_sequence = 2\<rparr>\<rparr>"]
  by (simp add: eval_defs)

text \<open>
  C3, as stated: for every id, \<^verbatim>\<open>DELETE /messages/{id}\<close> on a table without a row of
  that id answers 404. For an id beyond the signed 64-bit range the \<^verbatim>\<open>DELETE\<close>
  raises \<^verbatim>\<open>OverflowError\<close> and the answer is 500.
\<close>

theorem delete_beyond_64_bits:
  "- 9223372036854775809 \<notin> set (ids \<lparr>rows = [(1, ''hello'')], sqlite_sequence = 1\<rparr>) \<and>
   serve (DELETE_message (- 9223372036854775809))
       \<lparr>rows = [(1, ''hello'')], sqlite_sequence = 1\<rparr> =
     (\<lparr>status = 500, body = Plain ''Internal Server Error''\<rparr>,
      \<lparr>rows = [(1, ''hello'')], sqlite_sequence = 1\<rparr>)"
  by (simp add: eval_defs)

text \<open>
  C3, amended: for every id in the signed 64-bit range,
  \<^verbatim>\<open>DELETE /messages/{id}\<close> on a table that holds a row of that id removes that row
  and no other (one row, when the ids are distinct), answers 204 with an empty body, and
  a following \<^verbatim>\<open>GET /messages/{id}\<close> answers 404; on a table without such a row it
  answers 404 and leaves the table unchanged.
\<close>

theorem delete_message_removes:
  assumes "sqlite_integer i"
  shows
  "(i \<in> set (ids d) \<longrightarrow>
      fst (serve (DELETE_message i) d) = \<lparr>status = 204, body = Empty\<rparr> \<and>
      rows (snd (serve (DELETE_message i) d)) = filter (\<lambda>r. row_id r \<noteq> i) (rows d) \<and>
      sqlite_sequence (snd (serve (DELETE_message i) d)) = sqlite_sequence d \<and>
      (distinct (ids d) \<longrightarrow>
         Suc (length (rows (snd (serve (DELETE_message i) d)))) = length (rows d)) \<and>
      fst (serve (GET_message i) (snd (serve (DELETE_message i) d))) =
        \<lparr>status = 404, body = Json_detail ''Message not found''\<rparr>) \<and>
   (i \<notin> set (ids d) \<longrightarrow>
      serve (DELETE_message i) d =
        (\<lparr>status = 404, body = Json_detail ''Message not found''\<rparr>, d))"
proof (cases "i \<in> set (ids d)")
  case True
  from True assms have "word_of_int i \<in> fst ` set (rows d)"
    by (simp add: in_ids_iff)
  then have "distinct (ids d) \<Longrightarrow>
      Suc (length (filter (\<lambda>r. fst r \<noteq> word_of_int i) (rows d))) = length (rows d)"
    using length_delete[of "rows d" "word_of_int i"] by (simp add: ids_def)
  with True assms show ?thesis
    by (simp add: serve_DELETE_message serve_GET_message map_of_deleted)
       (simp add: filter_row_id)
next
  case False
  with assms show ?thesis by (simp add: serve_DELETE_message)
qed

theorem delete_message_removes_witness:
  "sqlite_integer 1 \<and>
   1 \<in> set (ids \<lparr>rows = [(1, ''hello''), (2, ''x'')], sqlite_sequence = 2\<rparr>) \<and>
   distinct (ids \<lparr>rows = [(1, ''hello''), (2, ''x'')], sqlite_sequence = 2\<rparr>) \<and>
   serve (DELETE_message 1) \<lparr>rows = [(1, ''hello''), (2, ''x'')], sqlite_sequence = 2\<rparr> =
     (\<lparr>status = 204, body = Empty\<rparr>, \<lparr>rows = [(2, ''x'')], sqlite_sequence = 2\<rparr>) \<and>
   fst (serve (GET_message 1) \<lparr>rows = [(2, ''x'')], sqlite_sequence = 2\<rparr>) =
     \<lparr>status = 404, body = Json_detail ''Message not found''\<rparr> \<and>
   1 \<notin> set (ids \<lparr>rows = [(2, ''x'')], sqlite_sequence = 2\<rparr>) \<and>
   serve (DELETE_message 1) \<lparr>rows = [(2, ''x'')], sqlite_sequence = 2\<rparr> =
     (\<lparr>status = 404, body = Json_detail ''Message not found''\<rparr>,
      \<lparr>rows = [(2, ''x'')], sqlite_sequence = 2\<rparr>)"
  using delete_message_removes [of 1 "\<lparr>rows = [(1, ''hello''), (2, ''x'')], sqlite_sequence = 2\<rparr>"]
    delete_message_removes [of 1 "\<lparr>rows = [(2, ''x'')], sqlite_sequence = 2\<rparr>"]
  by (simp add: eval_defs)

text \<open>
  C4, as stated: for every id, \<^verbatim>\<open>GET /messages/{id}\<close> raises the 404 error exactly
  when the table holds no row of that id. For an id beyond the signed 64-bit range the
  table holds no such row, and the \<^verbatim>\<open>SELECT\<close> raises \<^verbatim>\<open>OverflowError\<close>: the
  answer is 500.
\<close>

theorem get_beyond_64_bits:
  "9223372036854775808 \<notin> set (ids \<lparr>rows = [(1, ''hello'')], sqlite_sequence = 1\<rparr>) \<and>
   serve (GET_message 9223372036854775808) \<lparr>rows = [(1, ''hello'')], sqlite_sequence = 1\<rparr> =
     (\<lparr>status = 500, body = Plain ''Internal Server Error''\<rparr>,
      \<lparr>rows = [(1, ''hello'')], sqlite_sequence = 1\<rparr>) \<and>
   fst (get_message 9223372036854775808 (connect \<lparr>rows = [(1, ''hello'')], sqlite_sequence = 1\<rparr>))
     = Inl OverflowError"
  by (simp add: eval_defs)

text \<open>
  C4, amended: for every id in the signed 64-bit range, \<^verbatim>\<open>GET /messages/{id}\<close>
  answers 200 with the message of that id and its text when the table holds a row of
  that id, and raises the 404 error with detail \<^verbatim>\<open>Message not found\<close> exactly when
  it holds none; the stored table is unchanged either way.
\<close>

theorem get_message_found_or_404:
  assumes "sqlite_integer i"
  shows
  "(distinct (ids d) \<and> (word_of_int i, t) \<in> set (rows d) \<longrightarrow>
      fst (serve (GET_message i) d) =
        \<lparr>status = 200, body = Json_message \<lparr>msg_id = i, msg_text = t\<rparr>\<rparr>) \<and>
   (i \<in> set (ids d) \<longrightarrow>
      (\<exists>t'. (word_of_int i, t') \<in> set (rows d) \<and>
         fst (serve (GET_message i) d) =
           \<lparr>status = 200, body = Json_message \<lparr>msg_id = i, msg_text = t'\<rparr>\<rparr>)) \<and>
   (fst (serve (GET_message i) d) =
      \<lparr>status = 404, body = Json_detail ''Message not found''\<rparr> \<longleftrightarrow> i \<notin> set (ids d)) \<and>
   (fst (get_message i (connect d)) = Inl (HTTPException 404 ''Message not found'')
      \<longleftrightarrow> i \<notin> set (ids d)) \<and>
   snd (serve (GET_message i) d) = d"
proof -
  let ?w = "word_of_int i :: 64 word"
  have absent: "map_of (rows d) ?w = None \<longleftrightarrow> i \<notin> set (ids d)"
    using assms by (rule map_of_word_of_int)
  have "distinct (map fst (rows d))" if "distinct (ids d)"
    using that by (simp add: ids_def distinct_map inj_on_def row_id_def sint_eq_iff)
  then have found: "distinct (ids d) \<Longrightarrow> (?w, t) \<in> set (rows d) \<Longrightarrow> map_of (rows d) ?w = Some t"
    by simp
  have some: "i \<in> set (ids d) \<Longrightarrow> \<exists>t'. map_of (rows d) ?w = Some t' \<and> (?w, t') \<in> set (rows d)"
    using absent by (cases "map_of (rows d) ?w") (auto dest: map_of_SomeD)
  have handler: "fst (get_message i (connect d)) = Inl (HTTPException 404 ''Message not found'')
      \<longleftrightarrow> i \<notin> set (ids d)"
    using absent assms
    by (auto simp: get_message_def select_by_id_def bind_int_ok connect_def fetchone_map_of
        not_found_def split: option.splits)
  show ?thesis
    using absent found some handler assms
    by (auto simp: serve_GET_message split: option.splits)
qed

theorem get_message_found_or_404_witness:
  "sqlite_integer 1 \<and> sqlite_integer 2 \<and>
   distinct (ids \<lparr>rows = [(1, ''hello'')], sqlite_sequence = 1\<rparr>) \<and>
   (word_of_int 1, ''hello'') \<in> set (rows \<lparr>rows = [(1, ''hello'')], sqlite_sequence = 1\<rparr>) \<and>
   1 \<in> set (ids \<lparr>rows = [(1, ''hello'')], sqlite_sequence = 1\<rparr>) \<and>
   serve (GET_message 1) \<lparr>rows = [(1, ''hello'')], sqlite_sequence = 1\<rparr> =
     (\<lparr>status = 200, body = Json_message \<lparr>msg_id = 1, msg_text = ''hello''\<rparr>\<rparr>,
      \<lparr>rows = [(1, ''hello'')], sqlite_sequence = 1\<rparr>) \<and>
   2 \<notin> set (ids \<lparr>rows = [(1, ''hello'')], sqlite_sequence = 1\<rparr>) \<and>
   serve (GET_message 2) \<lparr>rows = [(1, ''hello'')], sqlite_sequence = 1\<rparr> =
     (\<lparr>status = 404, body = Json_detail ''Message not found''\<rparr>,
      \<lparr>rows = [(1, ''hello'')], sqlite_sequence = 1\<rparr>)"
  using get_message_found_or_404 [of 1 "\<lparr>rows = [(1, ''hello'')], sqlite_sequence = 1\<rparr>" "''hello''"]
    get_message_found_or_404 [of 2 "\<lparr>rows = [(1, ''hello'')], sqlite_sequence = 1\<rparr>" "''hello''"]
  by (simp add: eval_defs)

text \<open>
  C5, as stated: for every text and every starting table, \<^verbatim>\<open>POST /messages\<close>
  followed by a \<^verbatim>\<open>GET\<close> of the returned id yields the text. One \<^verbatim>\<open>PUT\<close> of
  the largest id there is leaves a table on which \<^verbatim>\<open>AUTOINCREMENT\<close> has no id to
  give: the \<^verbatim>\<open>POST\<close> is answered 500, returns no id and stores nothing.
\<close>

theorem post_when_autoincrement_is_full:
  "serve (PUT_message 9223372036854775807 (Some ''x'')) (init_db None) =
     (\<lparr>status = 201, body = Json_message \<lparr>msg_id = 9223372036854775807, msg_text = ''x''\<rparr>\<rparr>,
      \<lparr>rows = [(9223372036854775807, ''x'')], sqlite_sequence = 9223372036854775807\<rparr>) \<and>
   serve (POST_messages (Some ''y''))
       \<lparr>rows = [(9223372036854775807, ''x'')], sqlite_sequence = 9223372036854775807\<rparr> =
     (\<lparr>status = 500, body = Plain ''Internal Server Error''\<rparr>,
      \<lparr>rows = [(9223372036854775807, ''x'')], sqlite_sequence = 9223372036854775807\<rparr>)"
  by (simp add: eval_defs)

text \<open>
  C5, amended: for every text that fits a row of the table and every starting table on
  which \<^verbatim>\<open>AUTOINCREMENT\<close> has an id to give (the largest id the table holds or ever
  held is below \<^verbatim>\<open>2^63 - 1\<close>), \<^verbatim>\<open>POST /messages\<close> answers 201 with a message of
  that text, and \<^verbatim>\<open>GET /messages/{id}\<close> on the id of that message then returns a
  message with the same text.
\<close>

theorem post_then_get_roundtrip:
  assumes "\<not> autoincrement_full d" and "\<not> row_too_big t"
  shows
  "\<exists>i d'. serve (POST_messages (Some t)) d =
            (\<lparr>status = 201, body = Json_message \<lparr>msg_id = i, msg_text = t\<rparr>\<rparr>, d') \<and>
          serve (GET_message i) d' =
            (\<lparr>status = 200, body = Json_message \<lparr>msg_id = i, msg_text = t\<rparr>\<rparr>, d')"
  using assms in_ids_next[of d t] next_id_in_range[of d]
  by (simp add: serve_POST_messages serve_GET_message)

theorem post_then_get_roundtrip_witness:
  "\<not> autoincrement_full (init_db None) \<and> \<not> row_too_big ''hello'' \<and>
   serve (POST_messages (Some ''hello'')) (init_db None) =
     (\<lparr>status = 201, body = Json_message \<lparr>msg_id = 1, msg_text = ''hello''\<rparr>\<rparr>,
      \<lparr>rows = [(1, ''hello'')], sqlite_sequence = 1\<rparr>) \<and>
   serve (GET_message 1) \<lparr>rows = [(1, ''hello'')], sqlite_sequence = 1\<rparr> =
     (\<lparr>status = 200, body = Json_message \<lparr>msg_id = 1, msg_text = ''hello''\<rparr>\<rparr>,
      \<lparr>rows = [(1, ''hello'')], sqlite_sequence = 1\<rparr>)"
  using post_then_get_roundtrip [of "init_db None" "''hello''"]
  by (simp add: eval_defs)

text \<open>
  C6, as stated: every mutating handler, \<^verbatim>\<open>DELETE\<close> among them, reads the affected
  row again after its write and returns it as the body. \<^verbatim>\<open>delete_message\<close> does not:
  it returns nothing after the commit, and the answer is 204 with an empty body.
\<close>

theorem delete_returns_no_row:
  "serve (DELETE_message 1) \<lparr>rows = [(1, ''hello'')], sqlite_sequence = 1\<rparr> =
     (\<lparr>status = 204, body = Empty\<rparr>, \<lparr>rows = [], sqlite_sequence = 1\<rparr>) \<and>
   body (fst (serve (DELETE_message 1) \<lparr>rows = [(1, ''hello'')], sqlite_sequence = 1\<rparr>)) \<noteq>
     Json_message (row_to_dict (1, ''hello''))"
  by (simp add: eval_defs)

text \<open>
  C6, amended: the handlers that write a text (\<^verbatim>\<open>POST\<close>, \<^verbatim>\<open>PUT\<close>,
  \<^verbatim>\<open>PATCH\<close>) read the affected row again after the commit and return it. Whenever
  \<^verbatim>\<open>PUT\<close> or \<^verbatim>\<open>PATCH\<close> of an id succeeds, the body is the row of that id as the
  stored table now holds it, the result of selecting that id there. Whenever
  \<^verbatim>\<open>POST\<close> succeeds, the body is the row it added: its id was not in the table
  before, and selecting that id in the stored table gives the body. A successful
  \<^verbatim>\<open>DELETE\<close> answers 204 with an empty body.
\<close>

theorem writes_return_changed_row:
  "(status (fst (serve (POST_messages (Some t)) d)) = 201 \<longrightarrow>
      (\<exists>j. j \<notin> set (ids d) \<and>
           body (fst (serve (POST_messages (Some t)) d)) =
             Json_message \<lparr>msg_id = j, msg_text = t\<rparr> \<and>
           (word_of_int j, t) \<in> set (rows (snd (serve (POST_messages (Some t)) d))) \<and>
           select_row_to_dict j (connect (snd (serve (POST_messages (Some t)) d))) =
             Inr \<lparr>msg_id = j, msg_text = t\<rparr>)) \<and>
   (status (fst (serve (PUT_message i (Some t)) d)) = 200 \<or>
    status (fst (serve (PUT_message i (Some t)) d)) = 201 \<longrightarrow>
      body (fst (serve (PUT_message i (Some t)) d)) =
        Json_message \<lparr>msg_id = i, msg_text = t\<rparr> \<and>
      (word_of_int i, t) \<in> set (rows (snd (serve (PUT_message i (Some t)) d))) \<and>
      select_row_to_dict i (connect (snd (serve (PUT_message i (Some t)) d))) =
        Inr \<lparr>msg_id = i, msg_text = t\<rparr>) \<and>
   (status (fst (serve (PATCH_message i (Some t)) d)) = 200 \<longrightarrow>
      body (fst (serve (PATCH_message i (Some t)) d)) =
        Json_message \<lparr>msg_id = i, msg_text = t\<rparr> \<and>
      (word_of_int i, t) \<in> set (rows (snd (serve (PATCH_message i (Some t)) d))) \<and>
      select_row_to_dict i (connect (snd (serve (PATCH_message i (Some t)) d))) =
        Inr \<lparr>msg_id = i, msg_text = t\<rparr>) \<and>
   (status (fst (serve (DELETE_message i) d)) = 204 \<longrightarrow>
      body (fst (serve (DELETE_message i) d)) = Empty)"
proof -
  have post: "status (fst (serve (POST_messages (Some t)) d)) = 201 \<longrightarrow>
      (\<exists>j. j \<notin> set (ids d) \<and>
           body (fst (serve (POST_messages (Some t)) d)) =
             Json_message \<lparr>msg_id = j, msg_text = t\<rparr> \<and>
           (word_of_int j, t) \<in> set (rows (snd (serve (POST_messages (Some t)) d))) \<and>
           select_row_to_dict j (connect (snd (serve (POST_messages (Some t)) d))) =
             Inr \<lparr>msg_id = j, msg_text = t\<rparr>)"
  proof
    assume "status (fst (serve (POST_messages (Some t)) d)) = 201"
    then have room: "\<not> autoincrement_full d" "\<not> row_too_big t"
      by (auto simp: serve_POST_messages split: if_splits)
    have "next_id d \<notin> set (ids d)" by (rule next_id_fresh)
    moreover have "map_of (rows (store_row (word_of_int (next_id d), t) d))
        (word_of_int (next_id d)) = Some t"
      using room by (simp add: in_ids_next)
    ultimately show "\<exists>j. j \<notin> set (ids d) \<and>
           body (fst (serve (POST_messages (Some t)) d)) =
             Json_message \<lparr>msg_id = j, msg_text = t\<rparr> \<and>
           (word_of_int j, t) \<in> set (rows (snd (serve (POST_messages (Some t)) d))) \<and>
           select_row_to_dict j (connect (snd (serve (POST_messages (Some t)) d))) =
             Inr \<lparr>msg_id = j, msg_text = t\<rparr>"
      using room next_id_in_range[of d]
      by (intro exI[of _ "next_id d"])
         (simp add: serve_POST_messages select_row_to_dict_connect in_rows_store_row)
  qed
  have put: "status (fst (serve (PUT_message i (Some t)) d)) = 200 \<or>
    status (fst (serve (PUT_message i (Some t)) d)) = 201 \<longrightarrow>
      body (fst (serve (PUT_message i (Some t)) d)) =
        Json_message \<lparr>msg_id = i, msg_text = t\<rparr> \<and>
      (word_of_int i, t) \<in> set (rows (snd (serve (PUT_message i (Some t)) d))) \<and>
      select_row_to_dict i (connect (snd (serve (PUT_message i (Some t)) d))) =
        Inr \<lparr>msg_id = i, msg_text = t\<rparr>"
  proof
    assume "status (fst (serve (PUT_message i (Some t)) d)) = 200 \<or>
      status (fst (serve (PUT_message i (Some t)) d)) = 201"
    then have fits: "sqlite_integer i" "\<not> row_too_big t"
      by (auto simp: serve_PUT_message split: if_splits)
    show "body (fst (serve (PUT_message i (Some t)) d)) =
        Json_message \<lparr>msg_id = i, msg_text = t\<rparr> \<and>
      (word_of_int i, t) \<in> set (rows (snd (serve (PUT_message i (Some t)) d))) \<and>
      select_row_to_dict i (connect (snd (serve (PUT_message i (Some t)) d))) =
        Inr \<lparr>msg_id = i, msg_text = t\<rparr>"
    proof (cases "i \<in> set (ids d)")
      case True
      then have "map_of (map (set_text t (word_of_int i)) (rows d)) (word_of_int i) = Some t"
        using fits(1) by (simp add: map_of_updated in_ids_iff)
      with True fits show ?thesis
        using in_rows_updated[of i d t]
        by (simp add: serve_PUT_message select_row_to_dict_connect)
    next
      case False
      then have "map_of (rows (store_row (word_of_int i, t) d)) (word_of_int i) = Some t"
        using fits(1) by (simp add: store_row_def map_of_stored in_ids_iff)
      with False fits show ?thesis
        by (simp add: serve_PUT_message select_row_to_dict_connect in_rows_store_row)
    qed
  qed
  have patch: "status (fst (serve (PATCH_message i (Some t)) d)) = 200 \<longrightarrow>
      body (fst (serve (PATCH_message i (Some t)) d)) =
        Json_message \<lparr>msg_id = i, msg_text = t\<rparr> \<and>
      (word_of_int i, t) \<in> set (rows (snd (serve (PATCH_message i (Some t)) d))) \<and>
      select_row_to_dict i (connect (snd (serve (PATCH_message i (Some t)) d))) =
        Inr \<lparr>msg_id = i, msg_text = t\<rparr>"
  proof
    assume "status (fst (serve (PATCH_message i (Some t)) d)) = 200"
    then have fits: "sqlite_integer i" "i \<in> set (ids d)" "\<not> row_too_big t"
      "\<not> SQLITE_MAX_LENGTH < length t"
      by (auto simp: serve_PATCH_message split: if_splits)
    then have "map_of (map (set_text t (word_of_int i)) (rows d)) (word_of_int i) = Some t"
      by (simp add: map_of_updated in_ids_iff)
    with fits show "body (fst (serve (PATCH_message i (Some t)) d)) =
        Json_message \<lparr>msg_id = i, msg_text = t\<rparr> \<and>
      (word_of_int i, t) \<in> set (rows (snd (serve (PATCH_message i (Some t)) d))) \<and>
      select_row_to_dict i (connect (snd (serve (PATCH_message i (Some t)) d))) =
        Inr \<lparr>msg_id = i, msg_text = t\<rparr>"
      using in_rows_updated[of i d t]
      by (simp add: serve_PATCH_message select_row_to_dict_connect)
  qed
  have del: "status (fst (serve (DELETE_message i) d)) = 204 \<longrightarrow>
      body (fst (serve (DELETE_message i) d)) = Empty"
    by (auto simp: serve_DELETE_message split: if_splits)
  show ?thesis
    by (rule conjI[OF post conjI[OF put conjI[OF patch del]]])
qed

theorem writes_return_changed_row_witness:
  "status (fst (serve (POST_messages (Some ''hello'')) (init_db None))) = 201 \<and>
   body (fst (serve (POST_messages (Some ''hello'')) (init_db None))) =
     Json_message \<lparr>msg_id = 1, msg_text = ''hello''\<rparr> \<and>
   status (fst (serve (PUT_message 5 (Some ''x'')) (init_db None))) = 201 \<and>
   select_row_to_dict 5 (connect (snd (serve (PUT_message 5 (Some ''x'')) (init_db None)))) =
     Inr \<lparr>msg_id = 5, msg_text = ''x''\<rparr> \<and>
   status (fst (serve (PATCH_message 2 (Some ''world''))
                  \<lparr>rows = [(1, ''hello''), (2, ''x'')], sqlite_sequence = 2\<rparr>)) = 200 \<and>
   body (fst (serve (PATCH_message 2 (Some ''world''))
                \<lparr>rows = [(1, ''hello''), (2, ''x'')], sqlite_sequence = 2\<rparr>)) =
     Json_message \<lparr>msg_id = 2, msg_text = ''world''\<rparr> \<and>
   select_row_to_dict 2
       (connect (snd (serve (PATCH_message 2 (Some ''world''))
                        \<lparr>rows = [(1, ''hello''), (2, ''x'')], sqlite_sequence = 2\<rparr>))) =
     Inr \<lparr>msg_id = 2, msg_text = ''world''\<rparr> \<and>
   status (fst (serve (DELETE_message 1) \<lparr>rows = [(1, ''hello'')], sqlite_sequence = 1\<rparr>)) = 204 \<and>
   body (fst (serve (DELETE_message 1) \<lparr>rows = [(1, ''hello'')], sqlite_sequence = 1\<rparr>)) = Empty"
  using writes_return_changed_row [of "''hello''" "init_db None" 5]
    writes_return_changed_row [of "''x''" "init_db None" 5]
    writes_return_changed_row [of "''world''"
      "\<lparr>rows = [(1, ''hello''), (2, ''x'')], sqlite_sequence = 2\<rparr>" 2]
    writes_return_changed_row [of "''x''" "\<lparr>rows = [(1, ''hello'')], sqlite_sequence = 1\<rparr>" 1]
  by (simp add: eval_defs)

text \<open>
  C7, as stated: for every id, text and starting table, a second identical
  \<^verbatim>\<open>PUT\<close> answers 200. For an id beyond the signed 64-bit range both answer 500.
\<close>

theorem put_twice_beyond_64_bits:
  "serve (PUT_message 9223372036854775808 (Some ''x''))
       (snd (serve (PUT_message 9223372036854775808 (Some ''x'')) (init_db None))) =
     (\<lparr>status = 500, body = Plain ''Internal Server Error''\<rparr>, init_db None)"
  by (simp add: eval_defs)

text \<open>
  C7, amended: \<^verbatim>\<open>PUT /messages/{id}\<close> is idempotent for every id in the signed
  64-bit range, every text that fits a row and every starting table: a second identical
  \<^verbatim>\<open>PUT\<close> leaves the stored table as the first one left it, and answers 200 with
  the same message as the first.
\<close>

theorem put_message_idempotent:
  assumes "sqlite_integer i" and "\<not> row_too_big t"
  shows
  "serve (PUT_message i (Some t)) (snd (serve (PUT_message i (Some t)) d)) =
     (\<lparr>status = 200, body = body (fst (serve (PUT_message i (Some t)) d))\<rparr>,
      snd (serve (PUT_message i (Some t)) d)) \<and>
   body (fst (serve (PUT_message i (Some t)) d)) =
     Json_message \<lparr>msg_id = i, msg_text = t\<rparr>"
proof (cases "i \<in> set (ids d)")
  case True
  with assms show ?thesis
    by (simp add: serve_PUT_message ids_set_text comp_def set_text_twice)
next
  case False
  then have "word_of_int i \<notin> fst ` set (rows d)"
    using assms(1) by (simp add: in_ids_iff)
  then have "map (set_text t (word_of_int i)) (rows (store_row (word_of_int i, t) d)) =
      rows (store_row (word_of_int i, t) d)"
    by (simp add: store_row_def set_text_stored)
  with False assms show ?thesis
    using in_ids_store_word[of i t d]
    by (simp add: serve_PUT_message)
qed

theorem put_message_idempotent_witness:
  "sqlite_integer 5 \<and> \<not> row_too_big ''x'' \<and>
   serve (PUT_message 5 (Some ''x'')) (init_db None) =
     (\<lparr>status = 201, body = Json_message \<lparr>msg_id = 5, msg_text = ''x''\<rparr>\<rparr>,
      \<lparr>rows = [(5, ''x'')], sqlite_sequence = 5\<rparr>) \<and>
   serve (PUT_message 5 (Some ''x'')) \<lparr>rows = [(5, ''x'')], sqlite_sequence = 5\<rparr> =
     (\<lparr>status = 200, body = Json_message \<lparr>msg_id = 5, msg_text = ''x''\<rparr>\<rparr>,
      \<lparr>rows = [(5, ''x'')], sqlite_sequence = 5\<rparr>)"
  using put_message_idempotent [of 5 "''x''" "init_db None"]
  by (simp add: eval_defs)

text \<open>
  C8. Distinct ids stay distinct under every request, whether it succeeds or fails, and
  no request changes the id of a row: a request other than \<^verbatim>\<open>DELETE\<close> leaves the
  ids of the table as they are or adds one new id to them, and \<^verbatim>\<open>DELETE\<close> only
  takes the requested id away. (This holds for \<^verbatim>\<open>PUT\<close> as well.)
\<close>

theorem ids_stay_unique:
  "(distinct (ids d) \<longrightarrow> distinct (ids (snd (serve req d)))) \<and>
   ((\<forall>i. req \<noteq> DELETE_message i) \<longrightarrow>
      ids (snd (serve req d)) = ids d \<or>
      (\<exists>j. j \<notin> set (ids d) \<and> ids (snd (serve req d)) = insort j (ids d))) \<and>
   (req = DELETE_message i \<longrightarrow> ids (snd (serve req d)) = removeAll i (ids d))"
  using serve_ids[of req d] serve_distinct_ids[of d req] serve_DELETE_ids[of i d] by auto

theorem ids_stay_unique_witness:
  "distinct (ids \<lparr>rows = [(1, ''hello''), (5, ''x'')], sqlite_sequence = 5\<rparr>) \<and>
   ids (snd (serve (POST_messages (Some ''y''))
               \<lparr>rows = [(1, ''hello''), (5, ''x'')], sqlite_sequence = 5\<rparr>)) = [1, 5, 6] \<and>
   distinct (ids (snd (serve (POST_messages (Some ''y''))
               \<lparr>rows = [(1, ''hello''), (5, ''x'')], sqlite_sequence = 5\<rparr>))) \<and>
   ids (snd (serve (DELETE_message 1)
               \<lparr>rows = [(1, ''hello''), (5, ''x'')], sqlite_sequence = 5\<rparr>)) = [5]"
  using ids_stay_unique [of "\<lparr>rows = [(1, ''hello''), (5, ''x'')], sqlite_sequence = 5\<rparr>"
      "POST_messages (Some ''y'')" 0]
    ids_stay_unique [of "\<lparr>rows = [(1, ''hello''), (5, ''x'')], sqlite_sequence = 5\<rparr>"
      "DELETE_message 1" 1]
  by (simp add: eval_defs)

text \<open>
  C9, as stated: a request that stores a text is rejected unless the text is
  non-empty, so no stored row has an empty text. The source declares the parameter with
  \<^verbatim>\<open>Query(...)\<close>, which asks for its presence only: the empty string is accepted by
  all three routes and stored.
\<close>

theorem empty_text_is_stored:
  "serve (POST_messages (Some '''')) (init_db None) =
     (\<lparr>status = 201, body = Json_message \<lparr>msg_id = 1, msg_text = ''''\<rparr>\<rparr>,
      \<lparr>rows = [(1, '''')], sqlite_sequence = 1\<rparr>) \<and>
   serve (PUT_message 5 (Some '''')) (init_db None) =
     (\<lparr>status = 201, body = Json_message \<lparr>msg_id = 5, msg_text = ''''\<rparr>\<rparr>,
      \<lparr>rows = [(5, '''')], sqlite_sequence = 5\<rparr>) \<and>
   serve (PATCH_message 1 (Some '''')) \<lparr>rows = [(1, ''hello'')], sqlite_sequence = 1\<rparr> =
     (\<lparr>status = 200, body = Json_message \<lparr>msg_id = 1, msg_text = ''''\<rparr>\<rparr>,
      \<lparr>rows = [(1, '''')], sqlite_sequence = 1\<rparr>)"
  by (simp add: eval_defs)

text \<open>
  C9, amended: the text is required, and may be empty. A \<^verbatim>\<open>POST\<close>, \<^verbatim>\<open>PUT\<close> or
  \<^verbatim>\<open>PATCH\<close> without the parameter is answered 422 and the table is unchanged. No
  text is refused for being empty: the empty string fits a row, and with any text that
  fits a row \<^verbatim>\<open>POST\<close> succeeds and stores exactly that text when
  \<^verbatim>\<open>AUTOINCREMENT\<close> has an id to give, \<^verbatim>\<open>PUT\<close> does for every id in the signed
  64-bit range, and \<^verbatim>\<open>PATCH\<close> does for every such id that the table holds.
\<close>

theorem text_required_not_checked:
  "serve (POST_messages None) d = (\<lparr>status = 422, body = Json_validation_errors\<rparr>, d) \<and>
   serve (PUT_message i None) d = (\<lparr>status = 422, body = Json_validation_errors\<rparr>, d) \<and>
   serve (PATCH_message i None) d = (\<lparr>status = 422, body = Json_validation_errors\<rparr>, d) \<and>
   \<not> row_too_big '''' \<and>
   (\<not> row_too_big t \<and> \<not> autoincrement_full d \<longrightarrow>
      status (fst (serve (POST_messages (Some t)) d)) = 201 \<and>
      (word_of_int (next_id d), t) \<in> set (rows (snd (serve (POST_messages (Some t)) d)))) \<and>
   (\<not> row_too_big t \<and> sqlite_integer i \<longrightarrow>
      (status (fst (serve (PUT_message i (Some t)) d)) = 200 \<or>
       status (fst (serve (PUT_message i (Some t)) d)) = 201) \<and>
      (word_of_int i, t) \<in> set (rows (snd (serve (PUT_message i (Some t)) d)))) \<and>
   (\<not> row_too_big t \<and> sqlite_integer i \<and> i \<in> set (ids d) \<longrightarrow>
      status (fst (serve (PATCH_message i (Some t)) d)) = 200 \<and>
      (word_of_int i, t) \<in> set (rows (snd (serve (PATCH_message i (Some t)) d))))"
proof -
  have upd: "(word_of_int i, t) \<in> set (map (set_text t (word_of_int i)) (rows d))"
    if "sqlite_integer i" "i \<in> set (ids d)"
    using that by (rule in_rows_updated)
  have long: "\<not> SQLITE_MAX_LENGTH < length t" if "\<not> row_too_big t"
    using that too_long_too_big[of t] by blast
  have empty: "\<not> row_too_big ''''"
    by (simp add: row_too_big_iff)
  show ?thesis
    using upd long empty in_rows_store_row[of "(word_of_int i, t)" d]
      in_rows_store_row[of "(word_of_int (next_id d), t)" d]
    by (simp add: serve_without_text serve_POST_messages serve_PUT_message serve_PATCH_message)
qed

theorem text_required_not_checked_witness:
  "\<not> row_too_big '''' \<and> \<not> autoincrement_full (init_db None) \<and> sqlite_integer 1 \<and>
   1 \<in> set (ids \<lparr>rows = [(1, ''hello'')], sqlite_sequence = 1\<rparr>) \<and>
   status (fst (serve (POST_messages (Some '''')) (init_db None))) = 201 \<and>
   (word_of_int 1, '''') \<in> set (rows (snd (serve (POST_messages (Some '''')) (init_db None)))) \<and>
   status (fst (serve (PUT_message 1 (Some '''')) (init_db None))) = 201 \<and>
   status (fst (serve (PATCH_message 1 (Some ''''))
                  \<lparr>rows = [(1, ''hello'')], sqlite_sequence = 1\<rparr>)) = 200 \<and>
   (word_of_int 1, '''') \<in> set (rows (snd (serve (PATCH_message 1 (Some ''''))
                                  \<lparr>rows = [(1, ''hello'')], sqlite_sequence = 1\<rparr>)))"
  using text_required_not_checked [of "init_db None" 1 "''''"]
    text_required_not_checked [of "\<lparr>rows = [(1, ''hello'')], sqlite_sequence = 1\<rparr>" 1 "''''"]
  by (simp add: eval_defs)

text \<open>
  C10. The two reads leave the store as it is: for every table,
  \<^verbatim>\<open>GET /messages\<close> and \<^verbatim>\<open>GET /messages/{id}\<close> (found or not) return the table
  unchanged, and the handlers return their connection unchanged.
\<close>

theorem reads_leave_table_unchanged:
  "snd (serve GET_messages d) = d \<and> snd (serve (GET_message i) d) = d \<and>
   snd (get_messages conn) = conn \<and> snd (get_message i conn) = conn"
  by (simp add: serve_GET_messages serve_GET_message get_messages_def get_message_def
      split: option.split sum.split)

theorem reads_leave_table_unchanged_witness:
  "serve GET_messages \<lparr>rows = [(1, ''hello'')], sqlite_sequence = 1\<rparr> =
     (\<lparr>status = 200, body = Json_messages [\<lparr>msg_id = 1, msg_text = ''hello''\<rparr>]\<rparr>,
      \<lparr>rows = [(1, ''hello'')], sqlite_sequence = 1\<rparr>) \<and>
   snd (serve (GET_message 1) \<lparr>rows = [(1, ''hello'')], sqlite_sequence = 1\<rparr>) =
     \<lparr>rows = [(1, ''hello'')], sqlite_sequence = 1\<rparr> \<and>
   snd (serve (GET_message 2) \<lparr>rows = [(1, ''hello'')], sqlite_sequence = 1\<rparr>) =
     \<lparr>rows = [(1, ''hello'')], sqlite_sequence = 1\<rparr>"
  using reads_leave_table_unchanged [of "\<lparr>rows = [(1, ''hello'')], sqlite_sequence = 1\<rparr>" 1]
    reads_leave_table_unchanged [of "\<lparr>rows = [(1, ''hello'')], sqlite_sequence = 1\<rparr>" 2]
  by (simp add: eval_defs)

end
